theory Spec2Isabelle
  imports Main "HOL-Library.Word" "HOL-Library.Sublist"
begin

section \<open>JavaScript strings\<close>

text \<open>
  A JavaScript string is a sequence of UTF-16 code units; \<open>length\<close>, \<open>slice\<close>,
  \<open>includes\<close> and a regular expression without the \<open>u\<close> flag all count and compare
  code units. A literal of the source that is plain ASCII is written \<open>ascii ''...''\<close>;
  the other literals are given by their code units.
\<close>

type_synonym jsstring = "16 word list"

definition ascii :: "string \<Rightarrow> jsstring" where
  "ascii s = map of_char s"

text \<open>\<open>x || ""\<close> for a value that is a string or absent (\<open>null\<close>/\<open>undefined\<close>).\<close>

definition or_empty :: "jsstring option \<Rightarrow> jsstring" where
  "or_empty v = (case v of None \<Rightarrow> [] | Some s \<Rightarrow> (if s = [] then [] else s))"

text \<open>\<open>x || d\<close>: the empty string is falsy, as the absent value is.\<close>

definition or_default :: "jsstring option \<Rightarrow> jsstring \<Rightarrow> jsstring" where
  "or_default v d = (case v of None \<Rightarrow> d | Some s \<Rightarrow> (if s = [] then d else s))"

text \<open>
  \<open>s.replace(/c/g, r)\<close> for a pattern that is one literal code unit \<open>c\<close> and a
  replacement \<open>r\<close> without \<open>$\<close> patterns: every occurrence of \<open>c\<close>, left to right.
\<close>

fun replace_g :: "16 word \<Rightarrow> jsstring \<Rightarrow> jsstring \<Rightarrow> jsstring" where
  "replace_g c r [] = []"
| "replace_g c r (x # xs) = (if x = c then r else [x]) @ replace_g c r xs"

text \<open>\<open>s.includes(q)\<close>: \<open>q\<close> occurs in \<open>s\<close> at some position.\<close>

fun includes_js :: "jsstring \<Rightarrow> jsstring \<Rightarrow> bool" where
  "includes_js [] q = (q = [])"
| "includes_js (x # xs) q = (prefix q (x # xs) \<or> includes_js xs q)"

text \<open>\<open>s.slice(0, n)\<close> for \<open>n \<ge> 0\<close>.\<close>

definition slice0 :: "nat \<Rightarrow> jsstring \<Rightarrow> jsstring" where
  "slice0 n s = take n s"

section \<open>Text sanitizer\<close>

text \<open>
  \<^verbatim>\<open>
  function escapeHtml(str) {
    return String(str || "")
      .replace(/&/g, "&amp;") .replace(/</g, "&lt;") .replace(/>/g, "&gt;")
      .replace(/"/g, "&quot;") .replace(/'/g, "&#039;");
  }
  \<close>
  The argument is a string or absent.
\<close>

definition escapeHtml :: "jsstring option \<Rightarrow> jsstring" where
  "escapeHtml str =
     replace_g (of_char (CHR 0x27)) (ascii ''&#039;'')
       (replace_g (of_char (CHR 0x22)) (ascii ''&quot;'')
          (replace_g (of_char CHR ''>'') (ascii ''&gt;'')
             (replace_g (of_char CHR ''<'') (ascii ''&lt;'')
                (replace_g (of_char CHR ''&'') (ascii ''&amp;'') (or_empty str)))))"

text \<open>What the five replacements do to one code unit of the input.\<close>

definition escape_unit :: "16 word \<Rightarrow> jsstring" where
  "escape_unit x =
     (if x = of_char CHR ''&'' then ascii ''&amp;''
      else if x = of_char CHR ''<'' then ascii ''&lt;''
      else if x = of_char CHR ''>'' then ascii ''&gt;''
      else if x = of_char (CHR 0x22) then ascii ''&quot;''
      else if x = of_char (CHR 0x27) then ascii ''&#039;''
      else [x])"

text \<open>
  The sanitizer as the specification words it: each of the five characters replaced by
  its named character reference (\<open>&apos;\<close> is the named reference of the apostrophe).
\<close>

definition named_reference :: "16 word \<Rightarrow> jsstring" where
  "named_reference x =
     (if x = of_char CHR ''&'' then ascii ''&amp;''
      else if x = of_char CHR ''<'' then ascii ''&lt;''
      else if x = of_char CHR ''>'' then ascii ''&gt;''
      else if x = of_char (CHR 0x22) then ascii ''&quot;''
      else if x = of_char (CHR 0x27) then ascii ''&apos;''
      else [x])"

definition escapeHtml_named :: "jsstring option \<Rightarrow> jsstring" where
  "escapeHtml_named str = concat (map named_reference (or_empty str))"

section \<open>Templates, language texts and the page state\<close>

text \<open>
  A template record of the dataset: \<open>subject\<close> and \<open>body\<close> are text, \<open>category\<close> is
  text or absent.
\<close>

record template =
  subject :: jsstring
  body :: jsstring
  category :: "jsstring option"

text \<open>
  The greeting and the closing are chosen by the two-way branch
  \<open>targetLang === "en" ? ... : ...\<close>, written out at each place of the source that
  needs them. The alternate texts are given by their UTF-16 code units.
\<close>

definition greeting_ja :: jsstring where
  "greeting_ja = [0x3054, 0x62C5, 0x5F53, 0x8005, 0x69D8]"

definition closing_ja :: jsstring where
  "closing_ja = [0x3088, 0x308D, 0x3057, 0x304F, 0x304A, 0x9858, 0x3044, 0x3044,
                 0x305F, 0x3057, 0x307E, 0x3059]"

definition no_templates_ja :: jsstring where
  "no_templates_ja = [0x30C6, 0x30F3, 0x30D7, 0x30EC, 0x30FC, 0x30C8, 0x304C, 0x898B,
                      0x3064, 0x304B, 0x308A, 0x307E, 0x305B, 0x3093, 0x3002]"

definition greeting :: "jsstring \<Rightarrow> jsstring" where
  "greeting lang = (if lang = ascii ''en'' then ascii ''Good day Sir/Ma'am,'' else greeting_ja)"

definition closing :: "jsstring \<Rightarrow> jsstring" where
  "closing lang = (if lang = ascii ''en'' then ascii ''Best regards,'' else closing_ja)"

text \<open>The line feed of \<open>\n\<close> and the ellipsis U+2026 of the preview.\<close>

definition LF :: jsstring where
  "LF = [0x0A]"

definition ellipsis :: jsstring where
  "ellipsis = [0x2026]"

record card =
  card_subject :: jsstring
  card_badge :: jsstring
  card_greeting :: jsstring
  card_preview :: jsstring
  card_closing :: jsstring
  card_template :: template
  card_idx :: int

record modal_view =
  view_subject :: jsstring
  view_badge :: jsstring
  view_greeting :: jsstring
  view_body :: jsstring
  view_closing :: jsstring

datatype list_content = Message jsstring | Cards "card list"

text \<open>
  The module's variables and the parts of the page the functions below write:
  \<open>modalEl\<close> says whether the modal element has been created, \<open>modalShown\<close> whether its
  \<open>style.display\<close> is \<open>"flex"\<close>, \<open>loadingShown\<close> whether the loading section's is
  \<open>"block"\<close>. The count readout, the progress bar and the transient label of the copy
  buttons are not part of this state.
\<close>

record app_state =
  templates :: "template list"
  displayed :: "template list"
  targetLang :: jsstring
  modalIndex :: int
  modalEl :: bool
  modalShown :: bool
  modalContent :: "modal_view option"
  modalPrevDisabled :: bool
  modalNextDisabled :: bool
  listEl :: list_content
  categoryOptions :: "jsstring list"
  loadingShown :: bool

section \<open>Cards and the copy actions\<close>

text \<open>
  \<^verbatim>\<open>
  const previewText = (t.body || "").length > 140 ? (t.body.slice(0, 140) + "...") : t.body;
  \<close>
  (the appended string is the single character U+2026).
\<close>

definition previewText :: "template \<Rightarrow> jsstring" where
  "previewText t =
     (if length (or_empty (Some (body t))) > 140 then slice0 140 (body t) @ ellipsis
      else body t)"

definition createCard :: "jsstring \<Rightarrow> template \<Rightarrow> int \<Rightarrow> card" where
  "createCard lang t idx =
     \<lparr> card_subject = escapeHtml (Some (subject t)),
       card_badge = escapeHtml (Some (or_default (category t) (ascii ''General''))),
       card_greeting = greeting lang,
       card_preview = escapeHtml (Some (previewText t)),
       card_closing = closing lang,
       card_template = t,
       card_idx = idx \<rparr>"

text \<open>
  The text the card's copy handler passes to \<open>navigator.clipboard.writeText\<close>, for the
  template \<open>t\<close> of the card and the language current at the click.
\<close>

definition card_copy_text :: "jsstring \<Rightarrow> template \<Rightarrow> jsstring" where
  "card_copy_text lang t =
     ascii ''Subject: '' @ subject t @ LF @ LF
     @ (if lang = ascii ''en'' then ascii ''Good day Sir/Ma'am,'' else greeting_ja) @ LF @ LF
     @ body t @ LF @ LF
     @ (if lang = ascii ''en'' then ascii ''Best regards,'' else closing_ja) @ LF
     @ ascii ''[Your Name]''"

text \<open>
  The modal's copy handler: nothing is written when \<open>modalIndex < 0\<close> or
  \<open>displayed[modalIndex]\<close> is undefined.
\<close>

definition modal_copy_text :: "app_state \<Rightarrow> jsstring option" where
  "modal_copy_text st =
     (if modalIndex st < 0 \<or> \<not> modalIndex st < int (length (displayed st)) then None
      else let t = displayed st ! nat (modalIndex st) in
        Some (ascii ''Subject: '' @ subject t @ LF @ LF
              @ (if targetLang st = ascii ''en'' then ascii ''Good day Sir/Ma'am,''
                 else greeting_ja) @ LF @ LF
              @ body t @ LF @ LF
              @ (if targetLang st = ascii ''en'' then ascii ''Best regards,''
                 else closing_ja) @ LF
              @ ascii ''[Your Name]''))"

text \<open>The fixed layout of the copied email, as the specification gives it.\<close>

definition email_layout :: "jsstring \<Rightarrow> jsstring \<Rightarrow> jsstring \<Rightarrow> jsstring \<Rightarrow> jsstring" where
  "email_layout S g B c =
     ascii ''Subject: '' @ S @ [0x0A, 0x0A] @ g @ [0x0A, 0x0A] @ B @ [0x0A, 0x0A] @ c
     @ [0x0A] @ ascii ''[Your Name]''"

section \<open>Filtering and rendering the list\<close>

text \<open>
  \<open>String.prototype.toLowerCase\<close> is a built-in whose Unicode tables are not in the
  source: the functions below take it as the parameter \<open>lc\<close>. \<open>toLowerCase_ascii\<close> is
  its action on strings of Basic Latin code units, used to evaluate examples.
\<close>

definition toLowerCase_ascii :: "jsstring \<Rightarrow> jsstring" where
  "toLowerCase_ascii s = map (\<lambda>x. if 0x41 \<le> x \<and> x \<le> 0x5A then x + 0x20 else x) s"

text \<open>
  The callback of \<open>templates.filter\<close> in \<open>renderList\<close>; \<open>q\<close> is the lower-cased search.
\<close>

definition matches :: "(jsstring \<Rightarrow> jsstring) \<Rightarrow> jsstring \<Rightarrow> jsstring \<Rightarrow> template \<Rightarrow> bool" where
  "matches lc filterCategory q t =
     (if filterCategory \<noteq> ascii ''All'' \<and> category t \<noteq> Some filterCategory then False
      else if q = [] then True
      else includes_js
             (lc (subject t @ ascii '' '' @ body t @ ascii '' '' @ or_empty (category t))) q)"

definition renderList :: "(jsstring \<Rightarrow> jsstring) \<Rightarrow> jsstring \<Rightarrow> jsstring \<Rightarrow> app_state \<Rightarrow> app_state" where
  "renderList lc filterCategory search st =
     (let q = lc (or_empty (Some search));
          shown = filter (matches lc filterCategory q) (templates st)
      in st\<lparr> displayed := shown,
             listEl :=
               (if length shown = 0
                then Message (if targetLang st = ascii ''en'' then ascii ''No templates found.''
                              else no_templates_ja)
                else Cards (map (\<lambda>(t, i). createCard (targetLang st) t (int i))
                                (zip shown [0 ..< length shown]))) \<rparr>)"

text \<open>
  The filter as the specification words it: the category equals the selected one or the
  selected one is "All", and the search is empty or the case-insensitive concatenation
  of subject, body and category contains it.
\<close>

definition spec_matches :: "(jsstring \<Rightarrow> jsstring) \<Rightarrow> jsstring \<Rightarrow> jsstring \<Rightarrow> template \<Rightarrow> bool" where
  "spec_matches lc selected search t =
     ((category t = Some selected \<or> selected = ascii ''All'')
      \<and> (search = []
         \<or> includes_js (lc (subject t @ body t @ or_empty (category t))) (lc search)))"

text \<open>
  \<open>populateCategories\<close>: a \<open>Set\<close> keeps its elements in the order of first insertion.
\<close>

definition set_add :: "jsstring list \<Rightarrow> jsstring \<Rightarrow> jsstring list" where
  "set_add xs x = (if x \<in> set xs then xs else xs @ [x])"

definition populateCategories :: "app_state \<Rightarrow> app_state" where
  "populateCategories st =
     st\<lparr> categoryOptions :=
           fold (\<lambda>t acc. set_add acc (or_default (category t) (ascii ''General'')))
                (templates st) [ascii ''All''] \<rparr>"

section \<open>Modal controller\<close>

text \<open>
  \<open>showModal\<close> renders \<open>displayed[modalIndex]\<close> and sets the disabled flags of the two
  navigation buttons; it returns at once when the index is out of range.
\<close>

definition showModal :: "app_state \<Rightarrow> app_state" where
  "showModal st =
     (if modalIndex st < 0 \<or> modalIndex st \<ge> int (length (displayed st)) then st
      else let t = displayed st ! nat (modalIndex st) in
        st\<lparr> modalContent := Some
               \<lparr> view_subject = escapeHtml (Some (subject t)),
                 view_badge = escapeHtml (Some (or_default (category t) (ascii ''General''))),
                 view_greeting = greeting (targetLang st),
                 view_body = escapeHtml (Some (body t)),
                 view_closing = closing (targetLang st) \<rparr>,
             modalPrevDisabled := (modalIndex st \<le> 0),
             modalNextDisabled := (modalIndex st \<ge> int (length (displayed st)) - 1) \<rparr>)"

definition ensureModal :: "app_state \<Rightarrow> app_state" where
  "ensureModal st = (if modalEl st then st else st\<lparr> modalEl := True \<rparr>)"

definition openModalByIndex :: "int \<Rightarrow> app_state \<Rightarrow> app_state" where
  "openModalByIndex index st =
     (if index < 0 \<or> index \<ge> int (length (displayed st)) then st
      else (showModal ((ensureModal st)\<lparr> modalIndex := index \<rparr>))\<lparr> modalShown := True \<rparr>)"

definition showPrevModal :: "app_state \<Rightarrow> app_state" where
  "showPrevModal st =
     (if modalIndex st > 0 then showModal (st\<lparr> modalIndex := modalIndex st - 1 \<rparr>) else st)"

definition showNextModal :: "app_state \<Rightarrow> app_state" where
  "showNextModal st =
     (if modalIndex st < int (length (displayed st)) - 1
      then showModal (st\<lparr> modalIndex := modalIndex st + 1 \<rparr>) else st)"

definition closeModal :: "app_state \<Rightarrow> app_state" where
  "closeModal st =
     (if \<not> modalEl st then st else st\<lparr> modalShown := False, modalIndex := - 1 \<rparr>)"

text \<open>
  The events that reach the modal controller. The click handlers of the modal's buttons
  and overlay and the \<open>keydown\<close> listener are attached in \<open>ensureModal\<close>, so they exist
  only once the modal element does; the \<open>keydown\<close> listener returns unless the modal is
  displayed. A card click carries the index given to \<open>createCard\<close>; the transition is
  stated for any integer.
\<close>

datatype key = Escape | ArrowRight | ArrowLeft | OtherKey

datatype modal_event =
  CardClick int | PrevClick | NextClick | CloseClick | OverlayClick | KeyDown key

definition keydown :: "key \<Rightarrow> app_state \<Rightarrow> app_state" where
  "keydown k st =
     (if \<not> modalEl st \<or> \<not> modalShown st then st
      else case k of
             Escape \<Rightarrow> closeModal st
           | ArrowRight \<Rightarrow> showNextModal st
           | ArrowLeft \<Rightarrow> showPrevModal st
           | OtherKey \<Rightarrow> st)"

fun handle :: "modal_event \<Rightarrow> app_state \<Rightarrow> app_state" where
  "handle (CardClick i) st = openModalByIndex i st"
| "handle PrevClick st = (if modalEl st then showPrevModal st else st)"
| "handle NextClick st = (if modalEl st then showNextModal st else st)"
| "handle CloseClick st = (if modalEl st then closeModal st else st)"
| "handle OverlayClick st = (if modalEl st then closeModal st else st)"
| "handle (KeyDown k) st = keydown k st"

fun run :: "modal_event list \<Rightarrow> app_state \<Rightarrow> app_state" where
  "run [] st = st"
| "run (e # es) st = run es (handle e st)"

section \<open>Translation client and reload\<close>

text \<open>
  The body of the POST request, and what the remote endpoint does with it: \<open>fetch\<close>
  rejects, or \<open>res.json()\<close> rejects, or the body parses to \<open>null\<close> (reading a property
  of it throws), or to a value whose \<open>translatedText\<close> is text or is lacking.
\<close>

record request =
  req_q :: jsstring
  req_source :: jsstring
  req_target :: jsstring
  req_format :: jsstring

datatype json_data = JsonNull | JsonData "jsstring option"

datatype fetch_outcome = FetchRejects | JsonRejects | Parsed json_data

text \<open>
  \<open>translateTextForce\<close> returns its result together with the requests it issued.
  Every exception of the call is caught inside it.
\<close>

definition translateTextForce ::
  "(request \<Rightarrow> fetch_outcome) \<Rightarrow> jsstring \<Rightarrow> jsstring \<Rightarrow> jsstring \<times> request list" where
  "translateTextForce net text lang =
     (if text = [] then ([], [])
      else let req = \<lparr> req_q = text, req_source = ascii ''auto'', req_target = lang,
                       req_format = ascii ''text'' \<rparr>
           in (case net req of
                 FetchRejects \<Rightarrow> text
               | JsonRejects \<Rightarrow> text
               | Parsed JsonNull \<Rightarrow> text
               | Parsed (JsonData tr) \<Rightarrow> or_default tr text,
               [req]))"

text \<open>The record one callback of the \<open>map\<close> in \<open>fetchTemplates\<close> assembles.\<close>

definition translate_template :: "(request \<Rightarrow> fetch_outcome) \<Rightarrow> jsstring \<Rightarrow> template \<Rightarrow> template" where
  "translate_template net lang t =
     (let subject' = fst (translateTextForce net (subject t) lang);
          body' = fst (translateTextForce net (body t) lang)
      in t\<lparr> subject := subject', body := body' \<rparr>)"

text \<open>
  \<open>fetchTemplates\<close>. \<open>batch_throws\<close> says whether an exception escapes the awaited
  \<open>Promise.all\<close> (or the lines after it inside the \<open>try\<close>); \<open>customTemplates\<close> is
  the source dataset.
\<close>

definition fetchTemplates ::
  "(jsstring \<Rightarrow> jsstring) \<Rightarrow> (request \<Rightarrow> fetch_outcome) \<Rightarrow> bool \<Rightarrow> template list
   \<Rightarrow> app_state \<Rightarrow> app_state" where
  "fetchTemplates lc net batch_throws customTemplates st =
     (let st1 = st\<lparr> loadingShown := True \<rparr>;
          st2 = (if \<not> batch_throws
                 then st1\<lparr> templates := map (translate_template net (targetLang st1)) customTemplates,
                           loadingShown := False \<rparr>
                 else st1\<lparr> templates := customTemplates, loadingShown := False \<rparr>)
      in renderList lc (ascii ''All'') [] (populateCategories st2))"

text \<open>The values the module's variables start with, before the first load.\<close>

definition init_state :: app_state where
  "init_state =
     \<lparr> templates = [], displayed = [], targetLang = ascii ''en'', modalIndex = - 1,
       modalEl = False, modalShown = False, modalContent = None,
       modalPrevDisabled = False, modalNextDisabled = False,
       listEl = Cards [], categoryOptions = [], loadingShown = False \<rparr>"

text \<open>
  The invariant of the modal controller: the index is \<open>-1\<close> or a position of the
  displayed list, and it is a position whenever the modal is displayed.
\<close>

definition modal_inv :: "app_state \<Rightarrow> bool" where
  "modal_inv st =
     ((modalIndex st = - 1
       \<or> (0 \<le> modalIndex st \<and> modalIndex st < int (length (displayed st))))
      \<and> (modalShown st \<longrightarrow> 0 \<le> modalIndex st))"

section \<open>Example data\<close>

definition ex_sales :: template where
  "ex_sales = \<lparr> subject = ascii ''Intro'', body = ascii ''Hello there'',
                category = Some (ascii ''Sales'') \<rparr>"

definition ex_support :: template where
  "ex_support = \<lparr> subject = ascii ''Password'', body = ascii ''Reset your password'',
                  category = Some (ascii ''Support'') \<rparr>"

definition ex_plain :: template where
  "ex_plain = \<lparr> subject = ascii ''ab'', body = ascii ''cd'', category = None \<rparr>"

definition ex_long :: template where
  "ex_long = \<lparr> subject = ascii ''Intro'', body = replicate 200 (of_char CHR ''x''),
               category = Some (ascii ''Sales'') \<rparr>"

definition ex_state :: app_state where
  "ex_state = init_state\<lparr> templates := [ex_sales, ex_support],
                           displayed := [ex_sales, ex_support] \<rparr>"

section \<open>The translation batch as suspended computations\<close>














section \<open>Properties of the string operations\<close>

lemma or_empty_simps: "or_empty None = []" "or_empty (Some s) = s"
  by (simp_all add: or_empty_def)

lemma replace_g_concat_map:
  "replace_g c r s = concat (map (\<lambda>x. if x = c then r else [x]) s)"
  by (induction s) simp_all

lemma replace_g_append:
  "replace_g c r (xs @ ys) = replace_g c r xs @ replace_g c r ys"
  by (induction xs) simp_all

lemma replace_g_concat:
  "replace_g c r (concat xss) = concat (map (replace_g c r) xss)"
  by (induction xss) (simp_all add: replace_g_append)

lemma includes_iff_sublist: "includes_js s q \<longleftrightarrow> sublist q s"
  by (induction s) (simp_all add: sublist_Cons_right)

lemma includes_iff: "includes_js s q \<longleftrightarrow> (\<exists>p r. s = p @ q @ r)"
  by (simp add: includes_iff_sublist sublist_def)

section \<open>The sanitizer is one pass over the input\<close>

lemma escape_chain_unit:
  "replace_g (of_char (CHR 0x27)) (ascii ''&#039;'')
     (replace_g (of_char (CHR 0x22)) (ascii ''&quot;'')
        (replace_g (of_char CHR ''>'') (ascii ''&gt;'')
           (replace_g (of_char CHR ''<'') (ascii ''&lt;'')
              (replace_g (of_char CHR ''&'') (ascii ''&amp;'') [x])))) = escape_unit x"
  by (simp add: escape_unit_def ascii_def)

lemma escape_chain_append:
  "replace_g c5 r5 (replace_g c4 r4 (replace_g c3 r3 (replace_g c2 r2 (replace_g c1 r1 (xs @ ys)))))
   = replace_g c5 r5 (replace_g c4 r4 (replace_g c3 r3 (replace_g c2 r2 (replace_g c1 r1 xs))))
     @ replace_g c5 r5 (replace_g c4 r4 (replace_g c3 r3 (replace_g c2 r2 (replace_g c1 r1 ys))))"
  by (simp add: replace_g_append)

lemma escapeHtml_Some_Cons:
  "escapeHtml (Some (x # xs)) = escape_unit x @ escapeHtml (Some xs)"
proof -
  have "x # xs = [x] @ xs" by simp
  then show ?thesis
    unfolding escapeHtml_def or_empty_simps
    by (simp only: escape_chain_append escape_chain_unit)
qed

lemma escapeHtml_Some: "escapeHtml (Some s) = concat (map escape_unit s)"
proof (induction s)
  case Nil
  show ?case by (simp add: escapeHtml_def or_empty_simps)
next
  case (Cons x xs)
  then show ?case by (simp add: escapeHtml_Some_Cons)
qed

text \<open>
  C5 (amended). For every input string the sanitizer returns, without failing, the string
  in which every \<open>&\<close>, \<open><\<close>, \<open>>\<close> and \<open>"\<close> is replaced by its named character reference
  \<open>&amp;\<close>, \<open>&lt;\<close>, \<open>&gt;\<close>, \<open>&quot;\<close> and every apostrophe by the numeric character
  reference \<open>&#039;\<close>; the five replacements applied in sequence with the ampersand
  first give exactly this one-pass result (nothing is escaped twice); an absent input
  gives the empty string.
\<close>

theorem escapeHtml_one_pass:
  "escapeHtml str = concat (map escape_unit (or_empty str)) \<and> escapeHtml None = []"
proof -
  have "escapeHtml None = []"
    by (simp add: escapeHtml_def or_empty_simps)
  then show ?thesis
    by (cases str) (simp_all add: escapeHtml_Some or_empty_simps)
qed

theorem escapeHtml_one_pass_witness:
  "escapeHtml (Some (ascii ''a&<b>'')) = ascii ''a&amp;&lt;b&gt;''"
  using escapeHtml_one_pass [of "Some (ascii ''a&<b>'')"]
  by (simp add: or_empty_simps escape_unit_def ascii_def)

text \<open>
  C5 as stated fails at the apostrophe: the source emits the numeric reference
  \<open>&#039;\<close>, not a named one.
\<close>

theorem escapeHtml_named_counterexample:
  "escapeHtml (Some (ascii ''it's'')) = ascii ''it&#039;s''
   \<and> escapeHtml_named (Some (ascii ''it's'')) = ascii ''it&apos;s''
   \<and> escapeHtml (Some (ascii ''it's'')) \<noteq> escapeHtml_named (Some (ascii ''it's''))"
  by (simp add: escapeHtml_Some escapeHtml_named_def or_empty_simps escape_unit_def
      named_reference_def ascii_def)

section \<open>Frame lemmas\<close>

lemma showModal_frame:
  "displayed (showModal st) = displayed st" "modalIndex (showModal st) = modalIndex st"
  "modalShown (showModal st) = modalShown st" "modalEl (showModal st) = modalEl st"
  by (simp_all add: showModal_def Let_def)

lemma renderList_frame:
  "templates (renderList lc fc s st) = templates st"
  "loadingShown (renderList lc fc s st) = loadingShown st"
  "modalIndex (renderList lc fc s st) = modalIndex st"
  "modalShown (renderList lc fc s st) = modalShown st"
  by (simp_all add: renderList_def Let_def)

lemma populateCategories_frame:
  "templates (populateCategories st) = templates st"
  "loadingShown (populateCategories st) = loadingShown st"
  by (simp_all add: populateCategories_def)

lemma open_ex_state:
  "modalIndex (openModalByIndex 1 ex_state) = 1"
  "modalIndex (openModalByIndex 0 ex_state) = 0"
  "modalShown (openModalByIndex 1 ex_state)"
  "modalShown (openModalByIndex 0 ex_state)"
  "displayed (openModalByIndex 1 ex_state) = [ex_sales, ex_support]"
  "displayed (openModalByIndex 0 ex_state) = [ex_sales, ex_support]"
  "templates (openModalByIndex 1 ex_state) = [ex_sales, ex_support]"
  "templates (openModalByIndex 0 ex_state) = [ex_sales, ex_support]"
  "targetLang (openModalByIndex 1 ex_state) = ascii ''en''"
  by (simp_all add: openModalByIndex_def ensureModal_def showModal_def Let_def ex_state_def
      init_state_def)

section \<open>The displayed list\<close>

lemma matches_joined:
  assumes "\<And>s. (lc s = []) = (s = [])"
  shows "matches lc fc (lc (or_empty (Some search))) t =
     ((category t = Some fc \<or> fc = ascii ''All'')
      \<and> (search = []
         \<or> includes_js
              (lc (subject t @ ascii '' '' @ body t @ ascii '' '' @ or_empty (category t)))
              (lc search)))"
  using assms by (auto simp add: matches_def or_empty_simps)

text \<open>
  C1 (amended). For every list of templates, every selected category and every search
  string, \<open>renderList\<close> sets \<open>displayed\<close> to exactly the ordered subsequence of
  \<open>templates\<close> whose entries satisfy: the category equals the selected category or the
  selected category is "All", and the search string is empty or the lower-cased text
  \<open>subject + " " + body + " " + category\<close> (the three joined by single spaces, an
  absent category counting as empty) contains the lower-cased search string. The order
  is that of \<open>templates\<close>, and \<open>templates\<close> itself is left as it was.
  \<open>lc\<close> is \<open>toLowerCase\<close>, which gives the empty string for the empty string only.
\<close>

theorem renderList_displayed:
  assumes "\<forall>s. (lc s = []) = (s = [])"
  shows "displayed (renderList lc fc search st) =
           filter (\<lambda>t. (category t = Some fc \<or> fc = ascii ''All'')
                     \<and> (search = []
                        \<or> includes_js
                             (lc (subject t @ ascii '' '' @ body t @ ascii '' ''
                                  @ or_empty (category t)))
                             (lc search)))
                  (templates st)
         \<and> templates (renderList lc fc search st) = templates st"
proof -
  have "matches lc fc (lc (or_empty (Some search))) =
          (\<lambda>t. (category t = Some fc \<or> fc = ascii ''All'')
              \<and> (search = []
                 \<or> includes_js
                      (lc (subject t @ ascii '' '' @ body t @ ascii '' ''
                           @ or_empty (category t)))
                      (lc search)))"
    using assms by (intro ext matches_joined) simp
  then show ?thesis
    by (simp add: renderList_def Let_def)
qed

theorem renderList_displayed_witness:
  "(\<forall>s. (toLowerCase_ascii s = []) = (s = []))
   \<and> displayed (renderList toLowerCase_ascii (ascii ''Support'') (ascii ''RESET'') ex_state)
       = [ex_support]"
proof -
  have h: "\<forall>s. (toLowerCase_ascii s = []) = (s = [])"
    by (simp add: toLowerCase_ascii_def)
  have "displayed (renderList toLowerCase_ascii (ascii ''Support'') (ascii ''RESET'') ex_state)
        = filter (\<lambda>t. (category t = Some (ascii ''Support'') \<or> ascii ''Support'' = ascii ''All'')
                     \<and> (ascii ''RESET'' = []
                        \<or> includes_js
                             (toLowerCase_ascii (subject t @ ascii '' '' @ body t @ ascii '' ''
                                  @ or_empty (category t)))
                             (toLowerCase_ascii (ascii ''RESET''))))
                  (templates ex_state)"
    using renderList_displayed [OF h, of "ascii ''Support''" "ascii ''RESET''" ex_state]
    by (rule conjunct1)
  also have "\<dots> = [ex_support]"
    by (simp add: ex_state_def init_state_def ex_sales_def ex_support_def or_empty_simps
        toLowerCase_ascii_def ascii_def)
  finally show ?thesis
    using h by simp
qed

text \<open>
  C1 as stated fails where a match would span the subject and the body: with subject
  "ab", body "cd" and search "bc" the plain concatenation "abcd" contains the search,
  but the source searches "ab cd " and drops the record.
\<close>

theorem renderList_spec_counterexample:
  "displayed (renderList toLowerCase_ascii (ascii ''All'') (ascii ''bc'')
               (init_state\<lparr> templates := [ex_plain] \<rparr>)) = []
   \<and> filter (spec_matches toLowerCase_ascii (ascii ''All'') (ascii ''bc''))
        (templates (init_state\<lparr> templates := [ex_plain] \<rparr>)) = [ex_plain]"
  by (simp add: renderList_def matches_def spec_matches_def init_state_def toLowerCase_ascii_def
      or_empty_simps ex_plain_def ascii_def)

section \<open>Modal navigation\<close>

lemma handle_displayed: "displayed (handle e st) = displayed st"
  by (cases e; cases "case e of KeyDown k \<Rightarrow> k | _ \<Rightarrow> OtherKey")
     (simp_all add: openModalByIndex_def ensureModal_def showPrevModal_def showNextModal_def
       closeModal_def keydown_def showModal_frame)

lemma handle_inv: "modal_inv st \<Longrightarrow> modal_inv (handle e st)"
  by (cases e; cases "case e of KeyDown k \<Rightarrow> k | _ \<Rightarrow> OtherKey")
     (auto simp add: modal_inv_def openModalByIndex_def ensureModal_def showPrevModal_def
       showNextModal_def closeModal_def keydown_def showModal_frame)

lemma run_inv:
  "modal_inv st \<Longrightarrow> modal_inv (run es st) \<and> displayed (run es st) = displayed st"
  by (induction es arbitrary: st) (simp_all add: handle_inv handle_displayed)

text \<open>
  C2. Over a fixed displayed list: opening with an out-of-range index leaves the state
  unchanged; at index 0 \<open>prev\<close> (the function, the button and the left-arrow key) and at
  the last index \<open>next\<close> (the function, the button and the right-arrow key) leave the
  state unchanged; and from any closed state \<open>start\<close> every sequence of modal events
  keeps the displayed list and, whenever the modal is displayed, an index within
  \<open>[0, len(displayed) - 1]\<close>.
\<close>

theorem modal_navigation_in_range:
  "(index < 0 \<or> index \<ge> int (length (displayed st)) \<longrightarrow> openModalByIndex index st = st)
   \<and> (modalIndex st = 0 \<longrightarrow> showPrevModal st = st \<and> handle PrevClick st = st
        \<and> handle (KeyDown ArrowLeft) st = st)
   \<and> (modalIndex st = int (length (displayed st)) - 1 \<longrightarrow> showNextModal st = st
        \<and> handle NextClick st = st \<and> handle (KeyDown ArrowRight) st = st)
   \<and> (modalIndex start = - 1 \<and> \<not> modalShown start \<longrightarrow>
        displayed (run es start) = displayed start
        \<and> (modalShown (run es start) \<longrightarrow>
             0 \<le> modalIndex (run es start)
             \<and> modalIndex (run es start) \<le> int (length (displayed start)) - 1))"
proof -
  have a: "index < 0 \<or> index \<ge> int (length (displayed st)) \<longrightarrow> openModalByIndex index st = st"
    by (simp add: openModalByIndex_def)
  have b: "modalIndex st = 0 \<longrightarrow> showPrevModal st = st \<and> handle PrevClick st = st
        \<and> handle (KeyDown ArrowLeft) st = st"
    by (simp add: showPrevModal_def keydown_def)
  have c: "modalIndex st = int (length (displayed st)) - 1 \<longrightarrow> showNextModal st = st
        \<and> handle NextClick st = st \<and> handle (KeyDown ArrowRight) st = st"
    by (simp add: showNextModal_def keydown_def)
  have d: "modalIndex start = - 1 \<and> \<not> modalShown start \<longrightarrow>
        displayed (run es start) = displayed start
        \<and> (modalShown (run es start) \<longrightarrow>
             0 \<le> modalIndex (run es start)
             \<and> modalIndex (run es start) \<le> int (length (displayed start)) - 1)"
  proof
    assume "modalIndex start = - 1 \<and> \<not> modalShown start"
    then have "modal_inv start" by (simp add: modal_inv_def)
    then have "modal_inv (run es start) \<and> displayed (run es start) = displayed start"
      by (rule run_inv)
    then show "displayed (run es start) = displayed start
        \<and> (modalShown (run es start) \<longrightarrow>
             0 \<le> modalIndex (run es start)
             \<and> modalIndex (run es start) \<le> int (length (displayed start)) - 1)"
      by (auto simp add: modal_inv_def)
  qed
  from a b c d show ?thesis by blast
qed

theorem modal_navigation_in_range_witness:
  "openModalByIndex 7 (openModalByIndex 1 ex_state) = openModalByIndex 1 ex_state
   \<and> showPrevModal (openModalByIndex 0 ex_state) = openModalByIndex 0 ex_state
   \<and> showNextModal (openModalByIndex 1 ex_state) = openModalByIndex 1 ex_state
   \<and> modalShown (run [CardClick 1, NextClick, KeyDown ArrowLeft, CardClick 7] ex_state)
   \<and> modalIndex (run [CardClick 1, NextClick, KeyDown ArrowLeft, CardClick 7] ex_state) = 0"
proof -
  have s0: "modalIndex ex_state = - 1 \<and> \<not> modalShown ex_state"
    by (simp add: ex_state_def init_state_def)
  have r: "modalShown (run [CardClick 1, NextClick, KeyDown ArrowLeft, CardClick 7] ex_state)"
    "modalIndex (run [CardClick 1, NextClick, KeyDown ArrowLeft, CardClick 7] ex_state) = 0"
    by (simp_all add: openModalByIndex_def ensureModal_def showModal_def showNextModal_def
        showPrevModal_def keydown_def Let_def ex_state_def init_state_def)
  show ?thesis
    using modal_navigation_in_range [where index = 7 and st = "openModalByIndex 1 ex_state"
        and start = ex_state and es = "[]"]
      modal_navigation_in_range [where index = 7 and st = "openModalByIndex 0 ex_state"
        and start = ex_state
        and es = "[CardClick 1, NextClick, KeyDown ArrowLeft, CardClick 7]"]
      s0 r
    by (simp add: open_ex_state)
qed

section \<open>Copied text\<close>

text \<open>
  C3. For every template with subject \<open>S\<close> and body \<open>B\<close> and every language, the text the
  card's copy action writes, and the text the modal's copy action writes for the template
  at a valid modal index, is exactly
  \<open>Subject: S\n\n<greeting>\n\n<B>\n\n<closing>\n[Your Name]\<close>, the greeting and the
  closing being the pair selected by the language: "Good day Sir/Ma'am," and
  "Best regards," for \<open>en\<close>, the alternate pair for \<open>ja\<close>.
\<close>

theorem copy_text_layout:
  "card_copy_text lang t = email_layout (subject t) (greeting lang) (body t) (closing lang)
   \<and> (0 \<le> modalIndex st \<and> modalIndex st < int (length (displayed st)) \<longrightarrow>
        modal_copy_text st =
          Some (email_layout (subject (displayed st ! nat (modalIndex st)))
                  (greeting (targetLang st))
                  (body (displayed st ! nat (modalIndex st))) (closing (targetLang st))))
   \<and> greeting (ascii ''en'') = ascii ''Good day Sir/Ma'am,''
   \<and> closing (ascii ''en'') = ascii ''Best regards,''
   \<and> greeting (ascii ''ja'') = greeting_ja \<and> closing (ascii ''ja'') = closing_ja"
  by (simp add: card_copy_text_def modal_copy_text_def email_layout_def greeting_def
      closing_def LF_def Let_def ascii_def)

theorem copy_text_layout_witness:
  "card_copy_text (ascii ''ja'') ex_sales
     = ascii ''Subject: Intro'' @ [0x0A, 0x0A] @ greeting_ja @ [0x0A, 0x0A]
       @ ascii ''Hello there'' @ [0x0A, 0x0A] @ closing_ja @ [0x0A] @ ascii ''[Your Name]''
   \<and> modal_copy_text (openModalByIndex 1 ex_state)
     = Some (ascii ''Subject: Password'' @ [0x0A, 0x0A] @ ascii ''Good day Sir/Ma'am,''
             @ [0x0A, 0x0A] @ ascii ''Reset your password'' @ [0x0A, 0x0A]
             @ ascii ''Best regards,'' @ [0x0A] @ ascii ''[Your Name]'')"
  using copy_text_layout [of "ascii ''ja''" ex_sales "openModalByIndex 1 ex_state"]
  by (simp add: open_ex_state email_layout_def ex_sales_def ex_support_def ascii_def)

section \<open>Translation client\<close>

text \<open>
  C4. \<open>translateTextForce\<close> returns the empty string and issues no request when the
  text is empty; and whenever its call fails (\<open>fetch\<close> rejects, parsing the response
  rejects, or the parsed response is \<open>null\<close> or lacks the translated-text field) it
  returns the original text, as an ordinary result.
\<close>

theorem translate_degrades:
  "translateTextForce net [] lang = ([], [])
   \<and> (net \<lparr> req_q = text, req_source = ascii ''auto'', req_target = lang,
            req_format = ascii ''text'' \<rparr>
        \<in> {FetchRejects, JsonRejects, Parsed JsonNull, Parsed (JsonData None)}
      \<longrightarrow> fst (translateTextForce net text lang) = text)"
  by (auto simp add: translateTextForce_def Let_def or_default_def)

theorem translate_degrades_witness:
  "fst (translateTextForce (\<lambda>r. JsonRejects) (ascii ''Hello'') (ascii ''ja'')) = ascii ''Hello''
   \<and> fst (translateTextForce (\<lambda>r. Parsed (JsonData None)) (ascii ''Hello'') (ascii ''ja''))
       = ascii ''Hello''
   \<and> translateTextForce (\<lambda>r. Parsed (JsonData (Some greeting_ja))) [] (ascii ''ja'') = ([], [])"
  using translate_degrades [of "\<lambda>r. JsonRejects" "ascii ''ja''" "ascii ''Hello''"]
    translate_degrades [of "\<lambda>r. Parsed (JsonData None)" "ascii ''ja''" "ascii ''Hello''"]
    translate_degrades [of "\<lambda>r. Parsed (JsonData (Some greeting_ja))" "ascii ''ja''" "[]"]
  by simp

section \<open>Card preview\<close>

text \<open>
  C6. For every template body: if it is longer than 140 code units, the preview text is
  its first 140 code units followed by the one ellipsis character, 141 in all; if it has
  at most 140, the preview text is the body itself. The card shows the preview text
  through the sanitizer.
\<close>

theorem preview_truncation:
  "(length (body t) > 140 \<longrightarrow>
      previewText t = take 140 (body t) @ [0x2026] \<and> length (previewText t) = 141)
   \<and> (length (body t) \<le> 140 \<longrightarrow> previewText t = body t)
   \<and> card_preview (createCard lang t i) = escapeHtml (Some (previewText t))"
  by (simp add: previewText_def or_empty_simps slice0_def ellipsis_def createCard_def)

theorem preview_truncation_witness:
  "length (body ex_long) = 200
   \<and> previewText ex_long = replicate 140 (of_char CHR ''x'') @ [0x2026]
   \<and> length (previewText ex_long) = 141
   \<and> length (body ex_sales) = 11 \<and> previewText ex_sales = ascii ''Hello there''"
  using preview_truncation [of ex_long] preview_truncation [of ex_sales]
  by (simp add: ex_long_def ex_sales_def ascii_def)

section \<open>Reload\<close>

text \<open>
  C8. If an exception escapes the awaited translation batch, \<open>fetchTemplates\<close> leaves
  \<open>templates\<close> equal to the untranslated source dataset; and whether or not that
  happens, the loading indicator is hidden when \<open>fetchTemplates\<close> has run.
\<close>

theorem fetchTemplates_fallback:
  "(batch_throws \<longrightarrow>
      templates (fetchTemplates lc net batch_throws customTemplates st) = customTemplates)
   \<and> \<not> loadingShown (fetchTemplates lc net batch_throws customTemplates st)"
  by (simp add: fetchTemplates_def Let_def renderList_frame populateCategories_frame)

theorem fetchTemplates_fallback_witness:
  "templates (fetchTemplates toLowerCase_ascii (\<lambda>r. Parsed (JsonData (Some greeting_ja))) True
                [ex_sales, ex_plain] (ex_state\<lparr> loadingShown := True \<rparr>))
     = [ex_sales, ex_plain]
   \<and> \<not> loadingShown (fetchTemplates toLowerCase_ascii (\<lambda>r. Parsed (JsonData (Some greeting_ja)))
                        True [ex_sales, ex_plain] (ex_state\<lparr> loadingShown := True \<rparr>))
   \<and> \<not> loadingShown (fetchTemplates toLowerCase_ascii (\<lambda>r. Parsed (JsonData (Some greeting_ja)))
                        False [ex_sales, ex_plain] (ex_state\<lparr> loadingShown := True \<rparr>))"
  using fetchTemplates_fallback [of True toLowerCase_ascii
      "\<lambda>r. Parsed (JsonData (Some greeting_ja))" "[ex_sales, ex_plain]"
      "ex_state\<lparr> loadingShown := True \<rparr>"]
    fetchTemplates_fallback [of False toLowerCase_ascii
      "\<lambda>r. Parsed (JsonData (Some greeting_ja))" "[ex_sales, ex_plain]"
      "ex_state\<lparr> loadingShown := True \<rparr>"]
  by simp

section \<open>The modal index across a rebuild of the list\<close>

lemma rebuild_ex_state:
  "displayed (renderList toLowerCase_ascii (ascii ''Support'') [] (openModalByIndex 1 ex_state))
     = [ex_support]"
  "displayed (renderList toLowerCase_ascii (ascii ''Support'') [] (openModalByIndex 0 ex_state))
     = [ex_support]"
  by (simp_all add: renderList_def Let_def open_ex_state matches_def or_empty_simps
      toLowerCase_ascii_def ex_sales_def ex_support_def ascii_def)

text \<open>
  C9. \<open>renderList\<close> neither reads nor writes \<open>modalIndex\<close>: rebuilding the list commutes
  with any assignment to the index, and leaves the index and the modal's visibility as
  they were. So a modal that is open on a valid index can, after a rebuild, hold an index
  outside the new list, or an index of a different template.
\<close>

theorem renderList_keeps_modalIndex:
  "renderList lc fc s (st\<lparr> modalIndex := i \<rparr>) = (renderList lc fc s st)\<lparr> modalIndex := i \<rparr>
   \<and> modalIndex (renderList lc fc s st) = modalIndex st
   \<and> modalShown (renderList lc fc s st) = modalShown st
   \<and> (\<exists>st' fc' s'.
         modalShown st' \<and> 0 \<le> modalIndex st'
         \<and> modalIndex st' < int (length (displayed st'))
         \<and> modalIndex (renderList toLowerCase_ascii fc' s' st')
             \<ge> int (length (displayed (renderList toLowerCase_ascii fc' s' st'))))
   \<and> (\<exists>st' fc' s'.
         modalShown st' \<and> 0 \<le> modalIndex st'
         \<and> modalIndex st' < int (length (displayed st'))
         \<and> modalIndex (renderList toLowerCase_ascii fc' s' st')
             < int (length (displayed (renderList toLowerCase_ascii fc' s' st')))
         \<and> displayed (renderList toLowerCase_ascii fc' s' st') ! nat (modalIndex st')
             \<noteq> displayed st' ! nat (modalIndex st'))"
proof -
  have frame: "renderList lc fc s (st\<lparr> modalIndex := i \<rparr>)
                 = (renderList lc fc s st)\<lparr> modalIndex := i \<rparr>
   \<and> modalIndex (renderList lc fc s st) = modalIndex st
   \<and> modalShown (renderList lc fc s st) = modalShown st"
    by (simp add: renderList_def Let_def)
  let ?st1 = "openModalByIndex 1 ex_state"
  let ?r1 = "renderList toLowerCase_ascii (ascii ''Support'') [] ?st1"
  have out: "modalShown ?st1 \<and> 0 \<le> modalIndex ?st1
         \<and> modalIndex ?st1 < int (length (displayed ?st1))
         \<and> modalIndex ?r1 \<ge> int (length (displayed ?r1))"
    by (simp add: renderList_frame open_ex_state rebuild_ex_state)
  let ?st0 = "openModalByIndex 0 ex_state"
  let ?r0 = "renderList toLowerCase_ascii (ascii ''Support'') [] ?st0"
  have ne: "ex_support \<noteq> ex_sales"
    by (simp add: ex_sales_def ex_support_def ascii_def)
  have other: "modalShown ?st0 \<and> 0 \<le> modalIndex ?st0
         \<and> modalIndex ?st0 < int (length (displayed ?st0))
         \<and> modalIndex ?r0 < int (length (displayed ?r0))
         \<and> displayed ?r0 ! nat (modalIndex ?st0) \<noteq> displayed ?st0 ! nat (modalIndex ?st0)"
    using ne by (simp add: renderList_frame open_ex_state rebuild_ex_state)
  from frame out other show ?thesis by blast
qed

theorem renderList_keeps_modalIndex_witness:
  "modalIndex (renderList toLowerCase_ascii (ascii ''Support'') [] (openModalByIndex 1 ex_state))
     = 1
   \<and> length (displayed (renderList toLowerCase_ascii (ascii ''Support'') []
                (openModalByIndex 1 ex_state))) = 1"
  using renderList_keeps_modalIndex [where lc = toLowerCase_ascii
      and fc = "ascii ''Support''" and s = "[]" and st = "openModalByIndex 1 ex_state"
      and i = 1]
  by (simp add: open_ex_state rebuild_ex_state)

section \<open>The synthetic category\<close>

lemma set_add_mem: "x \<in> set (set_add xs x)"
  by (simp add: set_add_def)

lemma fold_set_add_mono:
  "x \<in> set acc \<Longrightarrow> x \<in> set (fold (\<lambda>t acc. set_add acc (f t)) ts acc)"
  by (induction ts arbitrary: acc) (auto simp add: set_add_def)

lemma fold_set_add_mem:
  "t \<in> set ts \<Longrightarrow> f t \<in> set (fold (\<lambda>t acc. set_add acc (f t)) ts acc)"
proof (induction ts arbitrary: acc)
  case Nil
  then show ?case by simp
next
  case (Cons a ts)
  show ?case
  proof (cases "t = a")
    case True
    have "f a \<in> set (set_add acc (f a))" by (rule set_add_mem)
    then show ?thesis
      using True by (simp add: fold_set_add_mono)
  next
    case False
    then have "t \<in> set ts" using Cons.prems by simp
    then show ?thesis by (simp add: Cons.IH)
  qed
qed

text \<open>
  C10. For every record of \<open>templates\<close> whose category is absent, \<open>populateCategories\<close>
  puts "General" among the options of the dropdown, yet \<open>renderList\<close> with the selected
  category "General" and an empty search leaves that record out of \<open>displayed\<close>: the
  filter compares the absent category itself with "General".
\<close>

theorem general_listed_but_excluded:
  assumes "t \<in> set (templates st)" and "category t = None"
  shows "ascii ''General'' \<in> set (categoryOptions (populateCategories st))
         \<and> t \<notin> set (displayed (renderList lc (ascii ''General'') [] st))"
proof -
  have "or_default (category t) (ascii ''General'') = ascii ''General''"
    using assms(2) by (simp add: or_default_def)
  then have "ascii ''General'' \<in> set (categoryOptions (populateCategories st))"
    using fold_set_add_mem [OF assms(1),
        of "\<lambda>t. or_default (category t) (ascii ''General'')" "[ascii ''All'']"]
    by (simp add: populateCategories_def)
  moreover have "\<not> matches lc (ascii ''General'') q t" for q
    using assms(2) by (simp add: matches_def ascii_def)
  then have "t \<notin> set (displayed (renderList lc (ascii ''General'') [] st))"
    by (simp add: renderList_def Let_def)
  ultimately show ?thesis by simp
qed

theorem general_listed_but_excluded_witness:
  "ex_plain \<in> set (templates (init_state\<lparr> templates := [ex_sales, ex_plain] \<rparr>))
   \<and> category ex_plain = None
   \<and> ascii ''General''
       \<in> set (categoryOptions (populateCategories (init_state\<lparr> templates := [ex_sales, ex_plain] \<rparr>)))
   \<and> ex_plain \<notin> set (displayed (renderList toLowerCase_ascii (ascii ''General'') []
                                   (init_state\<lparr> templates := [ex_sales, ex_plain] \<rparr>)))"
proof -
  have m: "ex_plain \<in> set (templates (init_state\<lparr> templates := [ex_sales, ex_plain] \<rparr>))"
    by simp
  have c: "category ex_plain = None"
    by (simp add: ex_plain_def)
  show ?thesis
    using general_listed_but_excluded [OF m c, of toLowerCase_ascii] m c
    by simp
qed

section \<open>The translation batch: order of the calls\<close>



















end
